theory Spec2Isabelle
  imports Main "HOL-Library.Word"
begin

unbundle bit_operations_syntax

text \<open>
  A shallow embedding of the emulator core of EMUWII1.0: the address translator, the memory
  unit, the interrupt controller, the instruction executor and the coprocessor mailbox of
  emuwiiv1.cpp, the executor of wiiemu.cpp (the draft that halts on an unknown opcode) and the
  two-window memory class of emuwiiv0.cpp.  Registers and addresses are 32-bit words, bytes are
  8-bit words, the cycle counter is a 64-bit word; arrays are functions of their index; the
  globals of the program are one record that every function which touches them takes and
  returns.  Console output is not modelled.
\<close>

section \<open>Machine integers and constants (emuwiiv1.cpp)\<close>

type_synonym u8 = "8 word"
type_synonym u16 = "16 word"
type_synonym u32 = "32 word"
type_synonym u64 = "64 word"

text \<open>\<^verbatim>\<open>constexpr uint32_t MEMORY_SIZE = (24 + 64) * 1024 * 1024;\<close> (88 MB, not a power of two)
  and \<^verbatim>\<open>MEM_MASK = MEMORY_SIZE - 1\<close>.\<close>

definition MEMORY_SIZE :: u32 where
  "MEMORY_SIZE = (24 + 64) * 1024 * 1024"

definition MEM_MASK :: u32 where
  "MEM_MASK = MEMORY_SIZE - 1"

definition SCREEN_WIDTH :: u32 where "SCREEN_WIDTH = 640"
definition SCREEN_HEIGHT :: u32 where "SCREEN_HEIGHT = 480"
definition KERNEL_BASE_ADDR :: u32 where "KERNEL_BASE_ADDR = 0x80000000"
definition INTERRUPT_TABLE_BASE :: u32 where "INTERRUPT_TABLE_BASE = 0x80003000"
definition RAM_START :: u32 where "RAM_START = 0x80000000"
definition RAM_END :: u32 where "RAM_END = 0x81FFFFFF"
definition HARDWARE_REGS_START :: u32 where "HARDWARE_REGS_START = 0xCC000000"
definition HARDWARE_REGS_END :: u32 where "HARDWARE_REGS_END = 0xCC00FFFF"
definition STARLET_MEM_START :: u32 where "STARLET_MEM_START = 0xCD000000"
definition STARLET_MEM_END :: u32 where "STARLET_MEM_END = 0xCD00FFFF"

section \<open>Data model (emuwiiv1.cpp)\<close>

text \<open>A \<^verbatim>\<open>float\<close> is kept as its 32-bit pattern; the three IEEE operations the executor
  uses are parameters of the model.\<close>

record float_ops =
  fadd :: "u32 \<Rightarrow> u32 \<Rightarrow> u32"
  fsub :: "u32 \<Rightarrow> u32 \<Rightarrow> u32"
  fmul :: "u32 \<Rightarrow> u32 \<Rightarrow> u32"

record FPR =
  ps0 :: u32
  ps1 :: u32

text \<open>\<^verbatim>\<open>struct CPUState\<close>: the arrays \<^verbatim>\<open>gpr[32]\<close>, \<^verbatim>\<open>fpr[32]\<close>, \<^verbatim>\<open>spr[1024]\<close> are functions
  of the index; every index the executor uses is a masked field or a constant.\<close>

record CPUState =
  pc :: u32
  gpr :: "nat \<Rightarrow> u32"
  fpr :: "nat \<Rightarrow> FPR"
  spr :: "nat \<Rightarrow> u32"
  running :: bool
  interrupts_enabled :: bool
  kernel_mode :: bool
  cycle_count :: u64

record StarletMemory =
  command :: u32
  response :: u32
  param_addr :: u32
  result_addr :: u32
  status :: u32

text \<open>The fields of \<^verbatim>\<open>struct AudioState\<close> that the coprocessor handler touches
  (\<^verbatim>\<open>buffer_size\<close> is a \<^verbatim>\<open>size_t\<close>).\<close>

record AudioState =
  buffer :: "nat \<Rightarrow> u8"
  buffer_size :: nat
  initialized :: bool

text \<open>The global variables of the emulator: \<^verbatim>\<open>memory[MEMORY_SIZE]\<close>,
  \<^verbatim>\<open>framebuffer[SCREEN_WIDTH * SCREEN_HEIGHT]\<close>, \<^verbatim>\<open>interrupt_vectors\<close> (a \<^verbatim>\<open>std::map<int, uint32_t>\<close>),
  \<^verbatim>\<open>starlet_memory\<close> and \<^verbatim>\<open>audio_state\<close>.\<close>

record emulator =
  memory :: "u32 \<Rightarrow> u8"
  framebuffer :: "u32 \<Rightarrow> u32"
  interrupt_vectors :: "int \<rightharpoonup> u32"
  starlet_memory :: StarletMemory
  audio_state :: AudioState

section \<open>Address translation and the memory unit (emuwiiv1.cpp)\<close>

definition translate_address :: "u32 \<Rightarrow> u32" where
  "translate_address virtual_addr =
     (if virtual_addr \<ge> RAM_START \<and> virtual_addr \<le> RAM_END then
        (virtual_addr - RAM_START) AND MEM_MASK
      else if virtual_addr \<ge> HARDWARE_REGS_START \<and> virtual_addr \<le> HARDWARE_REGS_END then
        (0x1000000 + (virtual_addr - HARDWARE_REGS_START)) AND MEM_MASK
      else if virtual_addr \<ge> STARLET_MEM_START \<and> virtual_addr \<le> STARLET_MEM_END then
        (0x1100000 + (virtual_addr - STARLET_MEM_START)) AND MEM_MASK
      else virtual_addr AND MEM_MASK)"

text \<open>\<^verbatim>\<open>read_word\<close>: the bounds check is the unsigned 32-bit comparison
  \<^verbatim>\<open>physical_addr + 3 >= MEMORY_SIZE\<close>; the four bytes are assembled big-endian.\<close>

definition read_word :: "emulator \<Rightarrow> u32 \<Rightarrow> u32" where
  "read_word g address =
     (let physical_addr = translate_address address in
      if physical_addr + 3 \<ge> MEMORY_SIZE then 0
      else push_bit 24 (ucast (memory g physical_addr))
           OR push_bit 16 (ucast (memory g (physical_addr + 1)))
           OR push_bit 8 (ucast (memory g (physical_addr + 2)))
           OR ucast (memory g (physical_addr + 3)))"

text \<open>\<^verbatim>\<open>write_word\<close>: an out-of-range write returns early; an in-range write stores the
  four bytes and mirrors the value into \<^verbatim>\<open>framebuffer\<close> when the virtual address lies in
  the framebuffer alias at \<^verbatim>\<open>0x90000000\<close>.\<close>

definition write_word :: "u32 \<Rightarrow> u32 \<Rightarrow> emulator \<Rightarrow> emulator" where
  "write_word address val g =
     (let physical_addr = translate_address address in
      if physical_addr + 3 \<ge> MEMORY_SIZE then g
      else
        let m = (memory g)
                  (physical_addr := ucast (drop_bit 24 val AND 0xFF),
                   physical_addr + 1 := ucast (drop_bit 16 val AND 0xFF),
                   physical_addr + 2 := ucast (drop_bit 8 val AND 0xFF),
                   physical_addr + 3 := ucast (val AND 0xFF));
            g1 = g\<lparr>memory := m\<rparr>
        in if address \<ge> 0x90000000 \<and> address < 0x90000000 + SCREEN_WIDTH * SCREEN_HEIGHT * 4 then
             (let pixel_offset = (address - 0x90000000) div 4 in
              if pixel_offset < SCREEN_WIDTH * SCREEN_HEIGHT
              then g1\<lparr>framebuffer := (framebuffer g1)(pixel_offset := val)\<rparr>
              else g1)
           else g1)"

section \<open>Interrupt controller (emuwiiv1.cpp)\<close>

definition get_interrupt_vector :: "emulator \<Rightarrow> int \<Rightarrow> u32" where
  "get_interrupt_vector g interrupt_type =
     (case interrupt_vectors g interrupt_type of
        Some v \<Rightarrow> v
      | None \<Rightarrow> INTERRUPT_TABLE_BASE)"

definition trigger_interrupt :: "emulator \<Rightarrow> int \<Rightarrow> CPUState \<Rightarrow> CPUState" where
  "trigger_interrupt g interrupt_type state =
     (if interrupts_enabled state then
        state\<lparr>spr := (spr state)(8 := pc state),
              pc := get_interrupt_vector g interrupt_type,
              interrupts_enabled := False,
              kernel_mode := True\<rparr>
      else state)"

section \<open>Instruction decoder and executor (emuwiiv1.cpp)\<close>

text \<open>\<^verbatim>\<open>uint8_t r = (instruction >> k) & 0x1F\<close>, used as an array index.\<close>

definition field5 :: "nat \<Rightarrow> u32 \<Rightarrow> nat" where
  "field5 k instruction = unat (drop_bit k instruction AND 0x1F)"

text \<open>\<^verbatim>\<open>int16_t imm = instruction & 0xFFFF\<close>, converted back to 32 bits where it is used
  (sign extension).\<close>

definition simm16 :: "u32 \<Rightarrow> u32" where
  "simm16 instruction = scast (ucast (instruction AND 0xFFFF) :: u16)"

text \<open>The \<^verbatim>\<open>switch\<close> of \<^verbatim>\<open>execute_instruction\<close>, case by case in the source's order.
  \<^verbatim>\<open>state.cycle_count++\<close> comes before the switch.  In the extended group the sub-opcode is
  stored in a \<^verbatim>\<open>uint8_t\<close>, so it is truncated to eight bits before it is compared.\<close>

definition execute_instruction ::
  "float_ops \<Rightarrow> u32 \<Rightarrow> emulator \<Rightarrow> CPUState \<Rightarrow> emulator \<times> CPUState" where
  "execute_instruction fp instruction g state0 =
     (let opcode = drop_bit 26 instruction AND 0x3F;
          state = state0\<lparr>cycle_count := cycle_count state0 + 1\<rparr>
      in
      if opcode = 0x18 then
        (let ra = field5 21 instruction; rb = field5 16 instruction; rd = field5 11 instruction
         in (g, state\<lparr>gpr := (gpr state)(rd := gpr state ra + gpr state rb),
                      pc := pc state + 4\<rparr>))
      else if opcode = 0x19 then
        (let ra = field5 21 instruction; rd = field5 16 instruction; imm = simm16 instruction
         in (g, state\<lparr>gpr := (gpr state)(rd := gpr state ra + imm),
                      pc := pc state + 4\<rparr>))
      else if opcode = 0x1C then
        (let ra = field5 21 instruction; rd = field5 16 instruction; imm = simm16 instruction
         in (g, state\<lparr>gpr := (gpr state)(rd := gpr state ra + push_bit 16 imm),
                      pc := pc state + 4\<rparr>))
      else if opcode = 0x1F then
        (let xo = (ucast (drop_bit 1 instruction AND 0x3FF) :: u8) in
         if unat xo = 0x10A then
           (let ra = field5 21 instruction; rb = field5 16 instruction; rd = field5 11 instruction
            in (g, state\<lparr>gpr := (gpr state)(rd := gpr state ra - gpr state rb),
                         pc := pc state + 4\<rparr>))
         else if unat xo = 0x00A then
           (let ra = field5 21 instruction; rb = field5 16 instruction;
                crfd = unat (drop_bit 23 instruction AND 0x7);
                a = sint (gpr state ra); b = sint (gpr state rb);
                cr_val = (if a < b then 0x8 else if a > b then 0x4 else 0x2 :: u32);
                sh = 28 - 4 * crfd
            in (g, state\<lparr>spr := (spr state)
                                 (0 := (spr state 0 AND NOT (push_bit sh 0xF)) OR push_bit sh cr_val),
                         pc := pc state + 4\<rparr>))
         else (g, state\<lparr>pc := pc state + 4\<rparr>))
      else if opcode = 0x12 then
        (let raw_offset = instruction AND 0x03FFFFFF;
             offset = signed_drop_bit 2 (push_bit 2 raw_offset);
             link = (instruction AND 0x1 \<noteq> 0);
             state1 = (if link then state\<lparr>spr := (spr state)(8 := pc state + 4)\<rparr> else state);
             absolute = (instruction AND 0x2 \<noteq> 0)
         in if absolute then (g, state1\<lparr>pc := offset AND 0xFFFFFFFC\<rparr>)
            else (g, state1\<lparr>pc := pc state1 + offset\<rparr>))
      else if opcode = 0x10 then
        (let bo = drop_bit 21 instruction AND 0x1F;
             bi = field5 16 instruction;
             offset = (scast (ucast (instruction AND 0xFFFC) :: u16) :: u32);
             link = (instruction AND 0x1 \<noteq> 0);
             state1 = (if link then state\<lparr>spr := (spr state)(8 := pc state + 4)\<rparr> else state);
             cr_field = bi div 4;
             cr_bit = bi mod 4;
             cr = spr state1 0;
             condition = (cr AND drop_bit (cr_field * 4 + cr_bit) 0x80000000 \<noteq> 0);
             branch_taken = (if bo AND 0x4 \<noteq> 0 then True
                             else if bo AND 0x8 \<noteq> 0 then condition
                             else \<not> condition)
         in if branch_taken then (g, state1\<lparr>pc := pc state1 + offset\<rparr>)
            else (g, state1\<lparr>pc := pc state1 + 4\<rparr>))
      else if opcode = 0x3C then
        (let ra = field5 21 instruction; rb = field5 16 instruction; rd = field5 11 instruction;
             r = \<lparr>ps0 = fadd fp (ps0 (fpr state ra)) (ps0 (fpr state rb)),
                  ps1 = fadd fp (ps1 (fpr state ra)) (ps1 (fpr state rb))\<rparr>
         in (g, state\<lparr>fpr := (fpr state)(rd := r), pc := pc state + 4\<rparr>))
      else if opcode = 0x3D then
        (let ra = field5 21 instruction; rb = field5 16 instruction; rd = field5 11 instruction;
             r = \<lparr>ps0 = fsub fp (ps0 (fpr state ra)) (ps0 (fpr state rb)),
                  ps1 = fsub fp (ps1 (fpr state ra)) (ps1 (fpr state rb))\<rparr>
         in (g, state\<lparr>fpr := (fpr state)(rd := r), pc := pc state + 4\<rparr>))
      else if opcode = 0x3E then
        (let ra = field5 21 instruction; rb = field5 16 instruction; rd = field5 11 instruction;
             r = \<lparr>ps0 = fmul fp (ps0 (fpr state ra)) (ps0 (fpr state rb)),
                  ps1 = fmul fp (ps1 (fpr state ra)) (ps1 (fpr state rb))\<rparr>
         in (g, state\<lparr>fpr := (fpr state)(rd := r), pc := pc state + 4\<rparr>))
      else if opcode = 0x20 then
        (let rs = field5 21 instruction; ra = field5 16 instruction; offset = simm16 instruction;
             addr = (if ra = 0 then offset else gpr state ra + offset)
         in (g, state\<lparr>gpr := (gpr state)(rs := read_word g addr), pc := pc state + 4\<rparr>))
      else if opcode = 0x24 then
        (let rs = field5 21 instruction; ra = field5 16 instruction; offset = simm16 instruction;
             addr = (if ra = 0 then offset else gpr state ra + offset)
         in (write_word addr (gpr state rs) g, state\<lparr>pc := pc state + 4\<rparr>))
      else if opcode = 0x0C then (g, state\<lparr>pc := pc state + 4\<rparr>)
      else if opcode = 0x13 then (g, trigger_interrupt g 9 state)
      else if opcode = 0x11 then (g, state\<lparr>pc := spr state 8, interrupts_enabled := True\<rparr>)
      else (g, state\<lparr>pc := pc state + 4\<rparr>))"

definition fetch_instruction :: "emulator \<Rightarrow> CPUState \<Rightarrow> u32" where
  "fetch_instruction g state = read_word g (pc state)"

section \<open>Coprocessor command protocol (emuwiiv1.cpp)\<close>

text \<open>The transfer loop of the read and write commands,
  \<^verbatim>\<open>for (uint32_t i = 0; i < size; i += 4) { data = read_word(src_addr + i); write_word(dest_addr + i, data); }\<close>.
  The counter is a \<^verbatim>\<open>uint32_t\<close>: for a size above \<^verbatim>\<open>0xFFFFFFFC\<close> it wraps before it reaches
  the size and the loop does not end, so the result is an option.\<close>

partial_function (option) transfer_loop ::
  "u32 \<Rightarrow> u32 \<Rightarrow> u32 \<Rightarrow> u32 \<Rightarrow> emulator \<Rightarrow> emulator option" where
  "transfer_loop src_addr dest_addr sz i g =
     (if i < sz
      then transfer_loop src_addr dest_addr sz (i + 4)
             (write_word (dest_addr + i) (read_word g (src_addr + i)) g)
      else Some g)"

text \<open>The body shared, word for word, by \<^verbatim>\<open>case 0x03\<close> and \<^verbatim>\<open>case 0x04\<close>: three parameter words,
  the transfer loop, then \<^verbatim>\<open>response = 0x00\<close>.\<close>

definition starlet_transfer :: "emulator \<Rightarrow> emulator option" where
  "starlet_transfer g =
     (let src_addr = read_word g (param_addr (starlet_memory g));
          dest_addr = read_word g (param_addr (starlet_memory g) + 4);
          sz = read_word g (param_addr (starlet_memory g) + 8)
      in case transfer_loop src_addr dest_addr sz 0 g of
           None \<Rightarrow> None
         | Some g1 \<Rightarrow> Some (g1\<lparr>starlet_memory := (starlet_memory g1)\<lparr>response := 0x00\<rparr>\<rparr>))"

text \<open>\<^verbatim>\<open>case 0x05\<close>: \<^verbatim>\<open>audio_state.buffer[i] = memory[translate_address(buffer_addr + i)]\<close> for
  \<^verbatim>\<open>i\<close> below the requested size, when the audio device is initialised and the size fits.\<close>

definition starlet_audio_update :: "emulator \<Rightarrow> emulator" where
  "starlet_audio_update g =
     (let buffer_addr = read_word g (param_addr (starlet_memory g));
          bsz = read_word g (param_addr (starlet_memory g) + 4);
          au = audio_state g
      in if initialized au \<and> unat bsz \<le> buffer_size au then
           g\<lparr>audio_state :=
                au\<lparr>buffer := fold (\<lambda>i b. b(i := memory g (translate_address (buffer_addr + of_nat i))))
                                  [0..<unat bsz] (buffer au)\<rparr>,
              starlet_memory := (starlet_memory g)\<lparr>response := 0x00\<rparr>\<rparr>
         else g\<lparr>starlet_memory := (starlet_memory g)\<lparr>response := 0x01\<rparr>\<rparr>)"

text \<open>\<^verbatim>\<open>handle_starlet_command\<close>: the returned flag, the globals and the CPU state; \<open>None\<close> when
  the transfer loop does not end.\<close>

definition handle_starlet_command ::
  "emulator \<Rightarrow> CPUState \<Rightarrow> (bool \<times> emulator \<times> CPUState) option" where
  "handle_starlet_command g state =
     (let c = command (starlet_memory g) in
      if c \<noteq> 0 then
        (case (if c = 0x01 then Some (g\<lparr>starlet_memory := (starlet_memory g)\<lparr>response := 0x00\<rparr>\<rparr>)
               else if c = 0x02 then Some (g\<lparr>starlet_memory := (starlet_memory g)\<lparr>response := 0x00\<rparr>\<rparr>)
               else if c = 0x03 then starlet_transfer g
               else if c = 0x04 then starlet_transfer g
               else if c = 0x05 then Some (starlet_audio_update g)
               else Some (g\<lparr>starlet_memory := (starlet_memory g)\<lparr>response := 0xFF\<rparr>\<rparr>))
         of None \<Rightarrow> None
          | Some g1 \<Rightarrow>
              (let g2 = g1\<lparr>starlet_memory := (starlet_memory g1)\<lparr>status := 0x01, command := 0\<rparr>\<rparr>
               in Some (True, g2, trigger_interrupt g2 1 state)))
      else Some (False, g, state))"


definition word_in_bounds :: "u32 \<Rightarrow> bool" where
  "word_in_bounds address \<longleftrightarrow> \<not> (translate_address address + 3 \<ge> MEMORY_SIZE)"

section \<open>The draft with the fatal unknown-opcode policy (wiiemu.cpp)\<close>

text \<open>\<^verbatim>\<open>struct CPUState\<close> of wiiemu.cpp has no cycle counter.\<close>

record wiiemu_CPUState =
  w_pc :: u32
  w_gpr :: "nat \<Rightarrow> u32"
  w_fpr :: "nat \<Rightarrow> FPR"
  w_spr :: "nat \<Rightarrow> u32"
  w_running :: bool
  w_interrupts_enabled :: bool
  w_kernel_mode :: bool

text \<open>\<^verbatim>\<open>read_word\<close> of wiiemu.cpp takes the address as the offset.  Its check
  \<^verbatim>\<open>address + 3 >= MEMORY_SIZE\<close> wraps for the last three addresses, where the array is then
  indexed outside its bounds: that case is \<open>None\<close>.\<close>

definition wiiemu_read_word :: "(u32 \<Rightarrow> u8) \<Rightarrow> u32 \<Rightarrow> u32 option" where
  "wiiemu_read_word mem address =
     (if address + 3 \<ge> MEMORY_SIZE then Some 0
      else if \<not> address < MEMORY_SIZE then None
      else Some (push_bit 24 (ucast (mem address))
                 OR push_bit 16 (ucast (mem (address + 1)))
                 OR push_bit 8 (ucast (mem (address + 2)))
                 OR ucast (mem (address + 3))))"

definition wiiemu_fetch_instruction :: "(u32 \<Rightarrow> u8) \<Rightarrow> wiiemu_CPUState \<Rightarrow> u32 option" where
  "wiiemu_fetch_instruction mem state = wiiemu_read_word mem (w_pc state)"

definition wiiemu_execute_instruction ::
  "float_ops \<Rightarrow> u32 \<Rightarrow> wiiemu_CPUState \<Rightarrow> wiiemu_CPUState" where
  "wiiemu_execute_instruction fp instruction state =
     (let opcode = drop_bit 26 instruction AND 0x3F in
      if opcode = 0x18 then
        (let ra = field5 21 instruction; rb = field5 16 instruction; rd = field5 11 instruction
         in state\<lparr>w_gpr := (w_gpr state)(rd := w_gpr state ra + w_gpr state rb),
                  w_pc := w_pc state + 4\<rparr>)
      else if opcode = 0x12 then
        (let raw_offset = instruction AND 0x03FFFFFF;
             offset = signed_drop_bit 2 (push_bit 2 raw_offset)
         in state\<lparr>w_pc := w_pc state + offset\<rparr>)
      else if opcode = 0x3C then
        (let ra = field5 21 instruction; rb = field5 16 instruction; rd = field5 11 instruction;
             r = \<lparr>ps0 = fadd fp (ps0 (w_fpr state ra)) (ps0 (w_fpr state rb)),
                  ps1 = fadd fp (ps1 (w_fpr state ra)) (ps1 (w_fpr state rb))\<rparr>
         in state\<lparr>w_fpr := (w_fpr state)(rd := r), w_pc := w_pc state + 4\<rparr>)
      else state\<lparr>w_running := False\<rparr>)"

text \<open>The mailbox of wiiemu.cpp has two fields; its interrupt vector is one constant; its
  \<^verbatim>\<open>trigger_interrupt\<close> does not save \<open>pc\<close>.\<close>

record wiiemu_StarletMemory =
  w_command :: u32
  w_response :: u32

definition wiiemu_get_interrupt_vector :: "int \<Rightarrow> u32" where
  "wiiemu_get_interrupt_vector interrupt_type = 0x80000000"

definition wiiemu_trigger_interrupt :: "int \<Rightarrow> wiiemu_CPUState \<Rightarrow> wiiemu_CPUState" where
  "wiiemu_trigger_interrupt interrupt_type state =
     (if w_interrupts_enabled state
      then state\<lparr>w_pc := wiiemu_get_interrupt_vector interrupt_type,
                 w_interrupts_enabled := False\<rparr>
      else state)"

definition wiiemu_handle_starlet_command ::
  "wiiemu_StarletMemory \<Rightarrow> wiiemu_CPUState \<Rightarrow> bool \<times> wiiemu_StarletMemory \<times> wiiemu_CPUState" where
  "wiiemu_handle_starlet_command sm state =
     (if w_command sm \<noteq> 0 then
        (let sm1 = (if w_command sm = 0x01 then sm\<lparr>w_response := 0x00\<rparr>
                    else sm\<lparr>w_response := 0xFF\<rparr>);
             sm2 = sm1\<lparr>w_command := 0\<rparr>
         in (True, sm2, wiiemu_trigger_interrupt 1 state))
      else (False, sm, state))"

section \<open>The memory class with two windows per RAM bank (emuwiiv0.cpp, class Memory)\<close>

definition MEM1_SIZE :: u32 where "MEM1_SIZE = 24 * 1024 * 1024"
definition MEM2_SIZE :: u32 where "MEM2_SIZE = 64 * 1024 * 1024"
definition REG_VIDEO_BG_COLOR :: u32 where "REG_VIDEO_BG_COLOR = 0x0D000000"
definition REG_INPUT_STATE :: u32 where "REG_INPUT_STATE = 0x0D000004"
definition REG_AUDIO_FREQ :: u32 where "REG_AUDIO_FREQ = 0x0D000008"

text \<open>The data members of \<^verbatim>\<open>class Memory\<close>; the device pointers are the external collaborators.\<close>

record Memory =
  mem1 :: "u32 \<Rightarrow> u8"
  mem2 :: "u32 \<Rightarrow> u8"
  videoBgColor :: u32
  audioFreqValue :: u32

text \<open>\<^verbatim>\<open>uint32_t offset = address & (MEM1_SIZE - 1)\<close> and its MEM2 counterpart.\<close>

definition mem1_offset :: "u32 \<Rightarrow> u32" where
  "mem1_offset address = address AND (MEM1_SIZE - 1)"

definition mem2_offset :: "u32 \<Rightarrow> u32" where
  "mem2_offset address = address AND (MEM2_SIZE - 1)"

definition in_mem1_window :: "u32 \<Rightarrow> bool" where
  "in_mem1_window address \<longleftrightarrow>
     (address \<ge> 0x80000000 \<and> address < 0x80000000 + MEM1_SIZE) \<or>
     (address \<ge> 0xC0000000 \<and> address < 0xC0000000 + MEM1_SIZE)"

definition in_mem2_window :: "u32 \<Rightarrow> bool" where
  "in_mem2_window address \<longleftrightarrow>
     (address \<ge> 0x90000000 \<and> address < 0x90000000 + MEM2_SIZE) \<or>
     (address \<ge> 0xD0000000 \<and> address < 0xD0000000 + MEM2_SIZE)"

definition be_word :: "(u32 \<Rightarrow> u8) \<Rightarrow> u32 \<Rightarrow> u32" where
  "be_word bytes offset =
     push_bit 24 (ucast (bytes offset)) OR push_bit 16 (ucast (bytes (offset + 1)))
     OR push_bit 8 (ucast (bytes (offset + 2))) OR ucast (bytes (offset + 3))"

definition be_store :: "(u32 \<Rightarrow> u8) \<Rightarrow> u32 \<Rightarrow> u32 \<Rightarrow> (u32 \<Rightarrow> u8)" where
  "be_store bytes offset val =
     bytes(offset := ucast (drop_bit 24 val AND 0xFF),
           offset + 1 := ucast (drop_bit 16 val AND 0xFF),
           offset + 2 := ucast (drop_bit 8 val AND 0xFF),
           offset + 3 := ucast (val AND 0xFF))"

text \<open>\<^verbatim>\<open>Memory::read32\<close>; \<open>buttons\<close> is what the connected input device reports
  (\<^verbatim>\<open>input ? input->getButtonState() : 0\<close>).\<close>

definition read32 :: "u32 \<Rightarrow> Memory \<Rightarrow> u32 \<Rightarrow> u32" where
  "read32 buttons m address =
     (if in_mem1_window address then
        (let offset = mem1_offset address in
         if offset + 3 < MEM1_SIZE then be_word (mem1 m) offset else 0)
      else if in_mem2_window address then
        (let offset = mem2_offset address in
         if offset + 3 < MEM2_SIZE then be_word (mem2 m) offset else 0)
      else if address = REG_VIDEO_BG_COLOR then videoBgColor m
      else if address = REG_INPUT_STATE then buttons
      else if address = REG_AUDIO_FREQ then audioFreqValue m
      else 0)"

text \<open>\<^verbatim>\<open>Memory::write32\<close>, as far as the members of the class go.\<close>

definition write32 :: "Memory \<Rightarrow> u32 \<Rightarrow> u32 \<Rightarrow> Memory" where
  "write32 m address val =
     (if in_mem1_window address then
        (let offset = mem1_offset address in
         if offset + 3 < MEM1_SIZE then m\<lparr>mem1 := be_store (mem1 m) offset val\<rparr> else m)
      else if in_mem2_window address then
        (let offset = mem2_offset address in
         if offset + 3 < MEM2_SIZE then m\<lparr>mem2 := be_store (mem2 m) offset val\<rparr> else m)
      else if address = REG_VIDEO_BG_COLOR then m\<lparr>videoBgColor := val\<rparr>
      else if address = REG_INPUT_STATE then m
      else if address = REG_AUDIO_FREQ then m\<lparr>audioFreqValue := val\<rparr>
      else m)"

section \<open>Start-up values\<close>

text \<open>The constructor \<^verbatim>\<open>CPUState()\<close> of emuwiiv1.cpp and the zero-initialised globals.\<close>

definition CPUState_init :: CPUState where
  "CPUState_init =
     \<lparr>pc = 0, gpr = (\<lambda>_. 0), fpr = (\<lambda>_. \<lparr>ps0 = 0, ps1 = 0\<rparr>), spr = (\<lambda>_. 0),
      running = True, interrupts_enabled = False, kernel_mode = True, cycle_count = 0\<rparr>"

definition emulator_init :: emulator where
  "emulator_init =
     \<lparr>memory = (\<lambda>_. 0), framebuffer = (\<lambda>_. 0), interrupt_vectors = Map.empty,
      starlet_memory = \<lparr>command = 0, response = 0, param_addr = 0, result_addr = 0, status = 0\<rparr>,
      audio_state = \<lparr>buffer = (\<lambda>_. 0), buffer_size = 0, initialized = False\<rparr>\<rparr>"

definition wiiemu_CPUState_init :: wiiemu_CPUState where
  "wiiemu_CPUState_init =
     \<lparr>w_pc = 0, w_gpr = (\<lambda>_. 0), w_fpr = (\<lambda>_. \<lparr>ps0 = 0, ps1 = 0\<rparr>), w_spr = (\<lambda>_. 0),
      w_running = True, w_interrupts_enabled = False, w_kernel_mode = False\<rparr>"

definition Memory_init :: Memory where
  "Memory_init = \<lparr>mem1 = (\<lambda>_. 0), mem2 = (\<lambda>_. 0), videoBgColor = 0, audioFreqValue = 0\<rparr>"

text \<open>An integer stand-in for the three floating-point operations, for runs that execute no
  paired-single instruction.\<close>

definition sample_float_ops :: float_ops where
  "sample_float_ops = \<lparr>fadd = (+), fsub = (-), fmul = (*)\<rparr>"



section \<open>Sample machines\<close>

text \<open>The word \<^verbatim>\<open>0x60221800\<close> (opcode \<^verbatim>\<open>0x18\<close>, fields 1, 2, 3) at the entry point, with
  \<^verbatim>\<open>gpr[1] = 5\<close> and \<^verbatim>\<open>gpr[2] = 7\<close>.\<close>

definition add_scene :: emulator where
  "add_scene = emulator_init\<lparr>memory := (\<lambda>_. 0)(0 := 0x60, 1 := 0x22, 2 := 0x18, 3 := 0x00)\<rparr>"

definition add_scene_cpu :: CPUState where
  "add_scene_cpu = CPUState_init\<lparr>pc := KERNEL_BASE_ADDR, gpr := (\<lambda>_. 0)(1 := 5, 2 := 7)\<rparr>"

text \<open>The CPU as \<^verbatim>\<open>main\<close> starts it: the constructor's values with \<^verbatim>\<open>pc\<close> at the entry point.\<close>

definition boot_cpu :: CPUState where
  "boot_cpu = CPUState_init\<lparr>pc := KERNEL_BASE_ADDR\<rparr>"

text \<open>Two entries of the vector table, and a CPU in user mode with interrupts enabled.\<close>

definition vector_scene :: emulator where
  "vector_scene = emulator_init\<lparr>interrupt_vectors :=
      [1 \<mapsto> INTERRUPT_TABLE_BASE + 0x10, 9 \<mapsto> INTERRUPT_TABLE_BASE + 0x90]\<rparr>"

definition armed_cpu :: CPUState where
  "armed_cpu = CPUState_init\<lparr>pc := 0x80000010, interrupts_enabled := True, kernel_mode := False\<rparr>"

text \<open>The word \<^verbatim>\<open>0x4C000000\<close> (opcode \<^verbatim>\<open>0x13\<close>) at the entry point.\<close>

definition sc_scene :: emulator where
  "sc_scene = emulator_init\<lparr>memory := (\<lambda>_. 0)(0 := 0x4C)\<rparr>"

text \<open>A memory without a zero byte, and a CPU whose \<^verbatim>\<open>gpr[1] + 8\<close> is an address of the last
  three bytes of the buffer.\<close>

definition filled_scene :: emulator where
  "filled_scene = emulator_init\<lparr>memory := (\<lambda>_. 0xAB)\<rparr>"

definition fault_cpu :: CPUState where
  "fault_cpu = CPUState_init\<lparr>pc := KERNEL_BASE_ADDR,
                              gpr := (\<lambda>_. 0)(1 := 0x057FFFF5, 5 := 0xCAFEBABE)\<rparr>"

text \<open>Three different words at the offsets \<^verbatim>\<open>0x8\<close>, \<^verbatim>\<open>0x108\<close> and \<^verbatim>\<open>0x57FFFFC\<close> (the last
  aligned word of the buffer, where the address \<^verbatim>\<open>0xFFFFFFFC\<close> lands), and a CPU with a non-zero
  \<^verbatim>\<open>gpr[0]\<close>.\<close>

definition ea_scene :: emulator where
  "ea_scene = emulator_init\<lparr>memory := (\<lambda>_. 0)
      (0x8 := 0x11, 0x9 := 0x22, 0xA := 0x33, 0xB := 0x44,
       0x108 := 0x55, 0x109 := 0x66, 0x10A := 0x77, 0x10B := 0x88,
       0x57FFFFC := 0x99, 0x57FFFFD := 0xAA, 0x57FFFFE := 0xBB, 0x57FFFFF := 0xCC)\<rparr>"

definition ea_cpu :: CPUState where
  "ea_cpu = boot_cpu\<lparr>gpr := (\<lambda>_. 0)(0 := 0x80000100, 1 := 0x80000100, 2 := 0x10, 5 := 0xCAFEBABE)\<rparr>"

definition branch_cpu :: CPUState where
  "branch_cpu = CPUState_init\<lparr>pc := 0x80000010\<rparr>"




section \<open>Basic facts\<close>

lemma MEMORY_SIZE_value: "MEMORY_SIZE = 0x5800000"
  by (simp add: MEMORY_SIZE_def)

lemma MEM_MASK_value: "MEM_MASK = 0x57FFFFF"
  by (simp add: MEM_MASK_def MEMORY_SIZE_def)

lemma MEM1_mask: "MEM1_SIZE - 1 = 0x17FFFFF"
  by (simp add: MEM1_SIZE_def)

subsection \<open>Bytes of a word\<close>

lemma ff_mask: "(0xFF::u32) = mask 8" by (simp add: mask_eq_exp_minus_1)

lemma bytes_join: 
  "push_bit 24 (ucast (ucast (drop_bit 24 v AND 0xFF :: u32) :: u8))
     OR push_bit 16 (ucast (ucast (drop_bit 16 v AND 0xFF :: u32) :: u8))
     OR push_bit 8 (ucast (ucast (drop_bit 8 v AND 0xFF :: u32) :: u8))
     OR ucast (ucast (v AND 0xFF :: u32) :: u8) = (v :: u32)"
  unfolding ff_mask
proof (rule bit_word_eqI)
  fix n :: nat
  assume n: "n < LENGTH(32)"
  consider "n < 8" | "8 \<le> n" "n < 16" | "16 \<le> n" "n < 24" | "24 \<le> n" "n < 32"
    using n by fastforce
  then show "bit (push_bit 24 (ucast (ucast (drop_bit 24 v AND mask 8 :: u32) :: u8))
     OR push_bit 16 (ucast (ucast (drop_bit 16 v AND mask 8 :: u32) :: u8))
     OR push_bit 8 (ucast (ucast (drop_bit 8 v AND mask 8 :: u32) :: u8))
     OR (ucast (ucast (v AND mask 8 :: u32) :: u8) :: u32)) n = bit v n"
    by cases (auto simp add: bit_simps)
qed

lemma be_word_store: "be_word (be_store bytes p v) p = v"
  by (simp add: be_word_def be_store_def bytes_join)



subsection \<open>The memory unit\<close>

lemma translate_address_le: "translate_address a \<le> MEM_MASK"
  by (simp add: translate_address_def word_and_le1)

lemma bounds_check_nat:
  "(translate_address a + 3 \<ge> MEMORY_SIZE) \<longleftrightarrow> unat MEMORY_SIZE \<le> unat (translate_address a) + 3"
proof -
  have "unat (translate_address a) \<le> unat MEM_MASK"
    using translate_address_le [of a] by (simp add: word_le_nat_alt)
  then have "unat (translate_address a) \<le> 0x57FFFFF"
    by (simp add: MEM_MASK_def MEMORY_SIZE_def)
  then have "unat (translate_address a + 3) = unat (translate_address a) + 3"
    by (simp add: unat_word_ariths)
  then show ?thesis
    by (simp add: word_le_nat_alt)
qed

lemma read_word_be:
  "read_word g a = (if word_in_bounds a then be_word (memory g) (translate_address a) else 0)"
  by (simp add: read_word_def word_in_bounds_def be_word_def Let_def)

lemma memory_write_word:
  "memory (write_word a v g) =
     (if word_in_bounds a then be_store (memory g) (translate_address a) v else memory g)"
  by (simp add: write_word_def word_in_bounds_def be_store_def Let_def)


lemma read_write_same:
  "word_in_bounds a \<Longrightarrow> read_word (write_word a v g) a = v"
  by (simp add: read_word_be memory_write_word be_word_store)



lemma word_in_bounds_nat:
  "word_in_bounds a \<longleftrightarrow> unat (translate_address a) + 3 < unat MEMORY_SIZE"
  by (simp add: word_in_bounds_def bounds_check_nat not_le)

subsection \<open>Masks and window bases\<close>

lemma take_bit_add_word:
  fixes a x :: u32
  assumes a: "take_bit n a = 0" and n: "n \<le> 32"
  shows "take_bit n (a + x) = take_bit n x"
proof -
  have za: "take_bit n (unat a) = 0"
    using a by (metis unsigned_take_bit_eq unsigned_0)
  have "unat (take_bit n (a + x)) = take_bit n (unat (a + x))"
    by (simp add: unsigned_take_bit_eq)
  also have "unat (a + x) = take_bit 32 (unat a + unat x)"
    by (simp add: unat_word_ariths take_bit_eq_mod)
  also have "take_bit n (take_bit 32 (unat a + unat x)) = take_bit n (unat a + unat x)"
    using n by (simp add: take_bit_take_bit min_def)
  also have "\<dots> = take_bit n (take_bit n (unat a) + take_bit n (unat x))"
    by (rule take_bit_add [symmetric])
  also have "\<dots> = take_bit n (unat x)"
    by (simp add: za)
  also have "\<dots> = unat (take_bit n x)"
    by (simp add: unsigned_take_bit_eq)
  finally show ?thesis
    by (rule word_unat_eq_iff [THEN iffD2])
qed

lemma low_mask_add:
  fixes a x m :: u32
  assumes a: "take_bit n a = 0" and n: "n \<le> 32" and m: "m AND mask n = m"
  shows "(a + x) AND m = x AND m"
proof -
  have r: "y AND m = take_bit n y AND m" for y :: u32
  proof -
    have "take_bit n y AND m = y AND (mask n AND m)"
      by (simp add: take_bit_eq_mask and.assoc)
    also have "mask n AND m = m" using m by (simp add: and.commute)
    finally show ?thesis by simp
  qed
  show ?thesis
    using r [of "a + x"] r [of x] take_bit_add_word [OF a n, of x] by simp
qed

lemma mem1_offset_window1: "mem1_offset (0x80000000 + x) = x AND 0x17FFFFF"
  unfolding mem1_offset_def MEM1_mask
  by (rule low_mask_add [where n = 25]) (simp_all add: mask_eq_exp_minus_1)

lemma mem1_offset_window2: "mem1_offset (0xC0000000 + x) = x AND 0x17FFFFF"
  unfolding mem1_offset_def MEM1_mask
  by (rule low_mask_add [where n = 25]) (simp_all add: mask_eq_exp_minus_1)

lemma unat_window_add:
  fixes x :: u32
  assumes "unat x < 0x2000000"
  shows "unat (0x80000000 + x) = 0x80000000 + unat x" "unat (0xC0000000 + x) = 0xC0000000 + unat x"
  using assms by (simp_all add: unat_word_ariths)

lemma in_window1: 
  assumes "x < MEM1_SIZE" shows "in_mem1_window (0x80000000 + x)"
proof -
  have "unat x < 0x1800000" using assms by (simp add: word_less_nat_alt MEM1_SIZE_def)
  then show ?thesis 
    by (simp add: in_mem1_window_def MEM1_SIZE_def word_le_nat_alt word_less_nat_alt unat_window_add)
qed

lemma in_window2:
  assumes "x < MEM1_SIZE" shows "in_mem1_window (0xC0000000 + x)"
proof -
  have "unat x < 0x1800000" using assms by (simp add: word_less_nat_alt MEM1_SIZE_def)
  then show ?thesis 
    by (simp add: in_mem1_window_def MEM1_SIZE_def word_le_nat_alt word_less_nat_alt unat_window_add)
qed

lemma mem1_word_fits:
  fixes x :: u32
  assumes "unat x + 3 < unat MEM1_SIZE"
  shows "(x AND 0x17FFFFF) + 3 < MEM1_SIZE"
proof -
  have "unat (x AND 0x17FFFFF) \<le> unat x"
    by (simp add: word_and_le2 flip: word_le_nat_alt)
  with assms have b: "unat (x AND 0x17FFFFF) + 3 < 0x1800000"
    by (simp add: MEM1_SIZE_def)
  then have "unat ((x AND 0x17FFFFF) + 3) = unat (x AND 0x17FFFFF) + 3"
    by (simp add: unat_word_ariths)
  with b show ?thesis
    by (simp add: word_less_nat_alt MEM1_SIZE_def)
qed

lemma Memory_alias_readback:
  assumes w: "x < MEM1_SIZE" and f: "unat x + 3 < unat MEM1_SIZE"
  shows "read32 b (write32 m (0x80000000 + x) v) (0xC0000000 + x) = v"
    and "read32 b (write32 m (0xC0000000 + x) v) (0x80000000 + x) = v"
  using in_window1 [OF w] in_window2 [OF w] mem1_word_fits [OF f]
  by (simp_all add: read32_def write32_def mem1_offset_window1 mem1_offset_window2 be_word_store)

lemma translate_ram:
  assumes "y \<le> RAM_END - RAM_START"
  shows "translate_address (RAM_START + y) = y AND MEM_MASK"
proof -
  have "unat y < 0x2000000"
    using assms by (simp add: word_le_nat_alt RAM_END_def RAM_START_def)
  then have "RAM_START + y \<ge> RAM_START \<and> RAM_START + y \<le> RAM_END"
    by (simp add: RAM_START_def RAM_END_def word_le_nat_alt unat_window_add)
  then show ?thesis
    by (simp add: translate_address_def)
qed

lemma translate_second_window:
  assumes "y \<le> RAM_END - RAM_START"
  shows "translate_address (0xC0000000 + y) = y AND MEM_MASK"
proof -
  have "unat y < 0x2000000"
    using assms by (simp add: word_le_nat_alt RAM_END_def RAM_START_def)
  then have u: "unat (0xC0000000 + y) = 0xC0000000 + unat y" "unat y < 0x2000000"
    by (simp_all add: unat_window_add)
  have "translate_address (0xC0000000 + y) = (0xC0000000 + y) AND MEM_MASK"
    using u
    by (simp add: translate_address_def RAM_START_def RAM_END_def HARDWARE_REGS_START_def
        HARDWARE_REGS_END_def STARLET_MEM_START_def STARLET_MEM_END_def word_le_nat_alt)
  also have "\<dots> = y AND MEM_MASK"
    unfolding MEM_MASK_value
    by (rule low_mask_add [where n = 27]) (simp_all add: mask_eq_exp_minus_1)
  finally show ?thesis .
qed

lemma ram_window_in_bounds:
  assumes "y \<le> RAM_END - RAM_START"
  shows "word_in_bounds (RAM_START + y)" "word_in_bounds (0xC0000000 + y)"
proof -
  have "unat y < 0x2000000"
    using assms by (simp add: word_le_nat_alt RAM_END_def RAM_START_def)
  then have "y < 2 ^ 25"
    by (simp add: word_less_nat_alt)
  then have "y AND mask 25 = y"
    by (rule less_mask_eq)
  then have "y AND MEM_MASK = y AND (mask 25 AND MEM_MASK)"
    by (simp flip: and.assoc)
  also have "mask 25 AND MEM_MASK = (0x17FFFFF :: u32)"
    by (simp add: MEM_MASK_value mask_eq_exp_minus_1)
  finally have "y AND MEM_MASK \<le> 0x17FFFFF"
    by (simp add: word_and_le1)
  then have "unat (y AND MEM_MASK) \<le> 0x17FFFFF"
    by (simp add: word_le_nat_alt)
  then have "unat (y AND MEM_MASK) + 3 < unat MEMORY_SIZE"
    by (simp add: MEMORY_SIZE_def)
  then have "unat (translate_address (RAM_START + y)) + 3 < unat MEMORY_SIZE"
    "unat (translate_address (0xC0000000 + y)) + 3 < unat MEMORY_SIZE"
    by (simp_all add: translate_ram [OF assms] translate_second_window [OF assms])
  then show "word_in_bounds (RAM_START + y)" "word_in_bounds (0xC0000000 + y)"
    by (simp_all only: word_in_bounds_nat)
qed

lemma emu_alias_readback:
  assumes y: "y \<le> RAM_END - RAM_START"
  shows "read_word (write_word (RAM_START + y) v g) (0xC0000000 + y) = v"
    and "read_word (write_word (0xC0000000 + y) v g) (RAM_START + y) = v"
  using ram_window_in_bounds [OF y]
  by (simp_all add: read_word_be memory_write_word translate_ram [OF y]
      translate_second_window [OF y] be_word_store)

subsection \<open>The low four bits of a translated address\<close>










subsection \<open>The 16-byte transfer\<close>




lemma read_word_starlet_update [simp]:
  "read_word (g\<lparr>starlet_memory := x\<rparr>) a = read_word g a"
  by (simp add: read_word_def Let_def)




subsection \<open>Decoding and the sample machines\<close>

lemma low16: "(ucast (instruction AND 0xFFFF :: u32) :: u16) = ucast instruction"
proof -
  have m: "(0xFFFF :: u32) = mask 16" by (simp add: mask_eq_exp_minus_1)
  show ?thesis
    unfolding m by (rule bit_word_eqI) (auto simp add: bit_simps)
qed

lemma simm16_sint: "sint (simm16 instruction) = sint (ucast instruction :: u16)"
  by (simp add: simm16_def low16 sint_up_scast is_up)

lemma simm16_scast: "simm16 instruction = scast (ucast instruction :: u16)"
  by (simp add: simm16_def low16)

lemma simm16_bits:
  "simm16 instruction =
     (if bit instruction 15 then (instruction AND 0xFFFF) OR 0xFFFF0000 else instruction AND 0xFFFF)"
proof -
  have m: "(0xFFFF :: u32) = mask 16" by (simp add: mask_eq_exp_minus_1)
  have h: "(0xFFFF0000 :: u32) = push_bit 16 (mask 16)" by (simp add: mask_eq_exp_minus_1)
  show ?thesis
    unfolding simm16_scast m h
  proof (rule bit_word_eqI)
    fix n :: nat
    assume n: "n < LENGTH(32)"
    consider "n < 15" | "n = 15" | "15 < n"
      by linarith
    then show "bit (scast (ucast instruction :: u16) :: u32) n
        = bit (if bit instruction 15 then (instruction AND mask 16) OR push_bit 16 (mask 16)
               else instruction AND mask 16) n"
      using n by cases (auto simp add: bit_simps min_def)
  qed
qed

lemma branch_offset_zero_extended:
  "signed_drop_bit 2 (push_bit 2 (instruction AND 0x03FFFFFF)) = (instruction AND 0x03FFFFFF :: u32)"
proof -
  have m: "(0x03FFFFFF :: u32) = mask 26" by (simp add: mask_eq_exp_minus_1)
  show ?thesis
    unfolding m
    by (rule bit_word_eqI) (auto simp add: bit_simps bit_signed_drop_bit_iff)
qed

subsection \<open>The executor: unknown opcodes, branches, the extended group\<close>

text \<open>emuwiiv1.cpp skips a word whose opcode it does not know.  A relative branch adds the
  26-bit field as it is, and a set link bit stores \<open>pc + 4\<close>.  In the extended group the
  sub-opcode is truncated to eight bits and never equals \<^verbatim>\<open>0x10A\<close>, so no instruction of the
  group changes a general register.\<close>

lemma unknown_opcode_skips:
  assumes "drop_bit 26 instruction AND 0x3F \<notin>
             {0x18, 0x19, 0x1C, 0x1F, 0x12, 0x10, 0x3C, 0x3D, 0x3E, 0x20, 0x24, 0x0C, 0x13, 0x11}"
  shows "execute_instruction fp instruction g s
           = (g, s\<lparr>cycle_count := cycle_count s + 1, pc := pc s + 4\<rparr>)"
  using assms by (simp add: execute_instruction_def Let_def)

lemma branch_step:
  assumes "drop_bit 26 instruction AND 0x3F = 0x12" and "instruction AND 0x2 = 0"
  shows "pc (snd (execute_instruction fp instruction g s)) = pc s + (instruction AND 0x03FFFFFF)"
    and "instruction AND 0x1 \<noteq> 0 \<Longrightarrow>
           spr (snd (execute_instruction fp instruction g s)) 8 = pc s + 4"
  unfolding execute_instruction_def Let_def branch_offset_zero_extended
  using assms by simp_all

lemma extended_group_keeps_gpr:
  assumes "drop_bit 26 instruction AND 0x3F = 0x1F"
  shows "gpr (snd (execute_instruction fp instruction g s)) = gpr s"
proof -
  have "unat (ucast (drop_bit 1 instruction AND 0x3FF) :: u8) < 256"
    using unsigned_less [of "ucast (drop_bit 1 instruction AND 0x3FF) :: u8", where ?'a = nat]
    by simp
  then have "unat (ucast (drop_bit 1 instruction AND 0x3FF) :: u8) \<noteq> 0x10A"
    by simp
  then show ?thesis
    using assms by (simp add: execute_instruction_def Let_def)
qed

lemma translate_entry: "translate_address 0x80000000 = 0"
  by (simp add: translate_address_def RAM_START_def RAM_END_def MEM_MASK_value)

lemma fault_address: "translate_address 0x057FFFFD = 0x57FFFFD"
  by (simp add: translate_address_def RAM_START_def RAM_END_def HARDWARE_REGS_START_def
      HARDWARE_REGS_END_def STARLET_MEM_START_def STARLET_MEM_END_def MEM_MASK_value)

lemma translate_low: "translate_address 0x8 = 0x8" "translate_address 0x80000108 = 0x108"
  by (simp_all add: translate_address_def RAM_START_def RAM_END_def HARDWARE_REGS_START_def
      HARDWARE_REGS_END_def STARLET_MEM_START_def STARLET_MEM_END_def MEM_MASK_value)

lemma ea_scene_words:
  "read_word ea_scene 0x8 = 0x11223344" "read_word ea_scene 0x80000108 = 0x55667788"
  by (simp_all add: read_word_def translate_low ea_scene_def emulator_init_def MEMORY_SIZE_value)

lemma ea_cpu_regs:
  "gpr ea_cpu 0 = 0x80000100" "gpr ea_cpu 1 = 0x80000100" "gpr ea_cpu 2 = 0x10"
  "gpr ea_cpu 5 = 0xCAFEBABE"
  by (simp_all add: ea_cpu_def)

lemma decode_samples:
  "drop_bit 26 (0x80A00008 :: u32) AND 0x3F = 0x20" "field5 21 0x80A00008 = 5"
  "field5 16 0x80A00008 = 0" "simm16 0x80A00008 = 8"
  "drop_bit 26 (0x80A10008 :: u32) AND 0x3F = 0x20" "field5 21 0x80A10008 = 5"
  "field5 16 0x80A10008 = 1" "simm16 0x80A10008 = 8"
  "drop_bit 26 (0x90A00008 :: u32) AND 0x3F = 0x24" "field5 21 0x90A00008 = 5"
  "field5 16 0x90A00008 = 0" "simm16 0x90A00008 = 8"
  "drop_bit 26 (0x90A10008 :: u32) AND 0x3F = 0x24" "field5 21 0x90A10008 = 5"
  "field5 16 0x90A10008 = 1" "simm16 0x90A10008 = 8"
  "drop_bit 26 (0x60220000 :: u32) AND 0x3F = 0x18" "field5 21 0x60220000 = 1"
  "field5 16 0x60220000 = 2" "field5 11 0x60220000 = 0"
  "drop_bit 26 (0x64030001 :: u32) AND 0x3F = 0x19" "field5 21 0x64030001 = 0"
  "field5 16 0x64030001 = 3" "simm16 0x64030001 = 1"
  "drop_bit 26 (0x70030001 :: u32) AND 0x3F = 0x1C" "field5 21 0x70030001 = 0"
  "field5 16 0x70030001 = 3" "simm16 0x70030001 = 1"
  by (simp_all add: field5_def simm16_def)

lemma translate_negative_samples:
  "translate_address 0xFFFFFFFC = 0x57FFFFC" "translate_address 0x80000008 = 0x8"
  "translate_address 0xFFFC = 0xFFFC" "translate_address 0x80010008 = 0x10008"
  by (simp_all add: translate_address_def RAM_START_def RAM_END_def HARDWARE_REGS_START_def
      HARDWARE_REGS_END_def STARLET_MEM_START_def STARLET_MEM_END_def MEM_MASK_value)

lemma ea_scene_negative_words:
  "read_word ea_scene 0xFFFFFFFC = 0x99AABBCC" "read_word ea_scene 0x80000008 = 0x11223344"
  "read_word ea_scene 0xFFFC = 0" "read_word ea_scene 0x80010008 = 0"
  by (simp_all add: read_word_def translate_negative_samples ea_scene_def emulator_init_def
      MEMORY_SIZE_value)

lemma decode_negative_samples:
  "drop_bit 26 (0x80A0FFFC :: u32) AND 0x3F = 0x20" "field5 21 0x80A0FFFC = 5"
  "field5 16 0x80A0FFFC = 0" "scast (ucast (0x80A0FFFC :: u32) :: u16) = (0xFFFFFFFC :: u32)"
  "drop_bit 26 (0x80A1FF08 :: u32) AND 0x3F = 0x20" "field5 21 0x80A1FF08 = 5"
  "field5 16 0x80A1FF08 = 1" "scast (ucast (0x80A1FF08 :: u32) :: u16) = (0xFFFFFF08 :: u32)"
  "drop_bit 26 (0x90A0FFFC :: u32) AND 0x3F = 0x24" "field5 21 0x90A0FFFC = 5"
  "field5 16 0x90A0FFFC = 0" "scast (ucast (0x90A0FFFC :: u32) :: u16) = (0xFFFFFFFC :: u32)"
  "drop_bit 26 (0x90A1FF08 :: u32) AND 0x3F = 0x24" "field5 21 0x90A1FF08 = 5"
  "field5 16 0x90A1FF08 = 1" "scast (ucast (0x90A1FF08 :: u32) :: u16) = (0xFFFFFF08 :: u32)"
  "drop_bit 26 (0x6403FFFF :: u32) AND 0x3F = 0x19" "field5 21 0x6403FFFF = 0"
  "field5 16 0x6403FFFF = 3" "scast (ucast (0x6403FFFF :: u32) :: u16) = (0xFFFFFFFF :: u32)"
  "scast (ucast (0x80A00008 :: u32) :: u16) = (8 :: u32)"
  "scast (ucast (0x80A10008 :: u32) :: u16) = (8 :: u32)"
  "scast (ucast (0x90A00008 :: u32) :: u16) = (8 :: u32)"
  "scast (ucast (0x90A10008 :: u32) :: u16) = (8 :: u32)"
  "scast (ucast (0x64030001 :: u32) :: u16) = (1 :: u32)"
  "scast (ucast (0x70030001 :: u32) :: u16) = (1 :: u32)"
  "sint (ucast (0x80A0FFFC :: u32) :: u16) = - 4"
  "sint (ucast (0x80A1FF08 :: u32) :: u16) = - 248"
  by (simp_all add: field5_def)

lemma minus_four_word: "(- 4 :: u32) = 0xFFFFFFFC"
  by simp

lemma fault_cpu_regs: "gpr fault_cpu 1 = 0x057FFFF5" "gpr fault_cpu 5 = 0xCAFEBABE"
  "running fault_cpu = True"
  by (simp_all add: fault_cpu_def CPUState_init_def)

lemma add_scene_cpu_simps:
  "pc add_scene_cpu = KERNEL_BASE_ADDR" "gpr add_scene_cpu 1 = 5" "gpr add_scene_cpu 2 = 7"
  "cycle_count add_scene_cpu = 0"
  by (simp_all add: add_scene_cpu_def CPUState_init_def)

lemma fetch_add_scene: "fetch_instruction add_scene add_scene_cpu = 0x60221800"
  by (simp add: fetch_instruction_def read_word_def add_scene_def emulator_init_def
      add_scene_cpu_simps KERNEL_BASE_ADDR_def translate_entry MEMORY_SIZE_def)

lemma fetch_sc_scene: "fetch_instruction sc_scene boot_cpu = 0x4C000000"
  by (simp add: fetch_instruction_def read_word_def sc_scene_def emulator_init_def boot_cpu_def
      CPUState_init_def KERNEL_BASE_ADDR_def translate_entry MEMORY_SIZE_value)







section \<open>The claims\<close>

text \<open>Claim C1.  For every machine state and every instruction word with opcode \<^verbatim>\<open>0x18\<close> (ADD)
  and register fields \<open>ra\<close> (bits 21 to 25), \<open>rb\<close> (bits 16 to 20) and \<open>rd\<close> (bits 11 to 15),
  \<^verbatim>\<open>execute_instruction\<close> sets \<open>gpr[rd]\<close> to \<open>(gpr[ra] + gpr[rb]) mod 2^32\<close>, advances \<open>pc\<close> by 4
  and increments \<open>cycle_count\<close> by 1.  In particular, when the word fetched at the entry point
  encodes ADD with fields 1, 2 and 3, \<open>gpr[1] = 5\<close>, \<open>gpr[2] = 7\<close> and the cycle count is 0, the step
  yields \<open>gpr[3] = 12\<close>, \<open>pc\<close> at the entry point plus 4 and a cycle count of 1.  The globals are
  not touched.\<close>

theorem C1_add:
  "(drop_bit 26 instruction AND 0x3F = 0x18 \<longrightarrow>
      (case execute_instruction fp instruction g s of (g', s') \<Rightarrow>
         gpr s' (field5 11 instruction) = gpr s (field5 21 instruction) + gpr s (field5 16 instruction)
       \<and> unat (gpr s' (field5 11 instruction))
           = (unat (gpr s (field5 21 instruction)) + unat (gpr s (field5 16 instruction))) mod 2 ^ 32
       \<and> pc s' = pc s + 4
       \<and> cycle_count s' = cycle_count s + 1
       \<and> g' = g))
   \<and> (pc s = KERNEL_BASE_ADDR \<and> gpr s 1 = 5 \<and> gpr s 2 = 7 \<and> cycle_count s = 0
        \<and> drop_bit 26 (fetch_instruction g s) AND 0x3F = 0x18
        \<and> field5 21 (fetch_instruction g s) = 1
        \<and> field5 16 (fetch_instruction g s) = 2
        \<and> field5 11 (fetch_instruction g s) = 3 \<longrightarrow>
      (case execute_instruction fp (fetch_instruction g s) g s of (g', s') \<Rightarrow>
         gpr s' 3 = 12 \<and> pc s' = KERNEL_BASE_ADDR + 4 \<and> cycle_count s' = 1 \<and> g' = g))"
  by (simp add: execute_instruction_def Let_def unat_word_ariths)

theorem C1_add_witness:
  "fetch_instruction add_scene add_scene_cpu = 0x60221800
   \<and> pc add_scene_cpu = KERNEL_BASE_ADDR \<and> gpr add_scene_cpu 1 = 5 \<and> gpr add_scene_cpu 2 = 7
   \<and> cycle_count add_scene_cpu = 0
   \<and> drop_bit 26 (0x60221800 :: u32) AND 0x3F = 0x18
   \<and> field5 21 0x60221800 = 1 \<and> field5 16 0x60221800 = 2 \<and> field5 11 0x60221800 = 3
   \<and> (case execute_instruction sample_float_ops (fetch_instruction add_scene add_scene_cpu)
              add_scene add_scene_cpu of
         (g', s') \<Rightarrow> gpr s' 3 = 12 \<and> pc s' = 0x80000004 \<and> cycle_count s' = 1
                     \<and> handle_starlet_command g' s' = Some (False, g', s'))"
proof -
  have fields: "drop_bit 26 (0x60221800 :: u32) AND 0x3F = 0x18"
    "field5 21 0x60221800 = 1" "field5 16 0x60221800 = 2" "field5 11 0x60221800 = 3"
    by (simp_all add: field5_def)
  have idle: "handle_starlet_command add_scene s' = Some (False, add_scene, s')" for s'
    by (simp add: handle_starlet_command_def add_scene_def emulator_init_def)
  have "case execute_instruction sample_float_ops (fetch_instruction add_scene add_scene_cpu)
              add_scene add_scene_cpu of
         (g', s') \<Rightarrow> gpr s' 3 = 12 \<and> pc s' = KERNEL_BASE_ADDR + 4 \<and> cycle_count s' = 1
                     \<and> g' = add_scene"
    using C1_add [where instruction = "0x60221800" and fp = sample_float_ops and g = add_scene
      and s = add_scene_cpu]
    by (simp only: fetch_add_scene add_scene_cpu_simps fields simp_thms)
  then show ?thesis
    using add_scene_cpu_simps fields
    by (auto simp add: fetch_add_scene KERNEL_BASE_ADDR_def idle)
qed

text \<open>Claim C2.  In the draft whose unknown-opcode policy is fatal (wiiemu.cpp), a step whose
  fetched word has an opcode outside the three the executor knows (\<^verbatim>\<open>0x18\<close>, \<^verbatim>\<open>0x12\<close>,
  \<^verbatim>\<open>0x3C\<close>) clears \<open>running\<close> and changes no other field of the CPU state; the executor of that
  draft has no access to memory but through the fetch, which only reads.  With an idle mailbox
  the coprocessor poll that ends the loop iteration changes nothing either.\<close>

theorem C2_fatal_unknown_opcode:
  assumes "wiiemu_fetch_instruction mem s = Some instruction"
      and "drop_bit 26 instruction AND 0x3F \<notin> {0x18, 0x12, 0x3C}"
  shows "wiiemu_execute_instruction fp instruction s = s\<lparr>w_running := False\<rparr>
       \<and> (w_command sm = 0 \<longrightarrow>
            wiiemu_handle_starlet_command sm (s\<lparr>w_running := False\<rparr>)
              = (False, sm, s\<lparr>w_running := False\<rparr>))"
  using assms by (simp add: wiiemu_execute_instruction_def wiiemu_handle_starlet_command_def)

theorem C2_fatal_unknown_opcode_witness:
  "wiiemu_fetch_instruction (\<lambda>_. 0) wiiemu_CPUState_init = Some 0
   \<and> drop_bit 26 (0 :: u32) AND 0x3F \<notin> {0x18, 0x12, 0x3C}
   \<and> wiiemu_execute_instruction sample_float_ops 0 wiiemu_CPUState_init
       = wiiemu_CPUState_init\<lparr>w_running := False\<rparr>
   \<and> wiiemu_handle_starlet_command \<lparr>w_command = 0, w_response = 0\<rparr>
         (wiiemu_CPUState_init\<lparr>w_running := False\<rparr>)
       = (False, \<lparr>w_command = 0, w_response = 0\<rparr>, wiiemu_CPUState_init\<lparr>w_running := False\<rparr>)"
proof -
  have f: "wiiemu_fetch_instruction (\<lambda>_. 0) wiiemu_CPUState_init = Some 0"
    by (simp add: wiiemu_fetch_instruction_def wiiemu_read_word_def wiiemu_CPUState_init_def
        MEMORY_SIZE_value)
  have o: "drop_bit 26 (0 :: u32) AND 0x3F \<notin> {0x18, 0x12, 0x3C}"
    by simp
  show ?thesis
    using C2_fatal_unknown_opcode [OF f o, of sample_float_ops "\<lparr>w_command = 0, w_response = 0\<rparr>"] f o
    by simp
qed

text \<open>Claim C3.  The claim: an unconditional branch with link and absolute bits clear moves
  \<open>pc\<close> by the sign-extended 26-bit displacement, which may be negative.  The executor computes
  \<^verbatim>\<open>static_cast<int32_t>(raw_offset << 2) >> 2\<close>, which leaves the 26-bit field as it is
  (\<open>branch_offset_zero_extended\<close>): at the word \<^verbatim>\<open>0x4BFFFFFC\<close> (opcode \<^verbatim>\<open>0x12\<close>, displacement
  \<open>-4\<close>, both low bits clear) and \<open>pc = 0x80000010\<close> the step leaves \<open>pc = 0x8400000C\<close>, where the
  claim says \<open>0x8000000C\<close>.\<close>

theorem C3_backward_branch:
  "drop_bit 26 (0x4BFFFFFC :: u32) AND 0x3F = 0x12
   \<and> (0x4BFFFFFC :: u32) AND 0x3 = 0
   \<and> sint (signed_take_bit 25 ((0x4BFFFFFC :: u32) AND 0x03FFFFFF)) = - 4
   \<and> pc (snd (execute_instruction fp 0x4BFFFFFC g branch_cpu)) = 0x8400000C
   \<and> pc branch_cpu + (- 4) = 0x8000000C"
  by (simp add: execute_instruction_def Let_def branch_cpu_def CPUState_init_def)




text \<open>Claim C5, as amended.  In \<^verbatim>\<open>class Memory\<close>, for every offset \<open>x\<close> below the size of the MEM1
  window, the addresses \<^verbatim>\<open>0x80000000 + x\<close> and \<^verbatim>\<open>0xC0000000 + x\<close> lie in the two windows and get
  the same physical offset; when the word at \<open>x\<close> fits the window (\<open>x + 3\<close> below its size, as it
  is for every word-aligned \<open>x\<close>), a word written through either window is read back through the
  other.  In emuwiiv1.cpp, for every offset \<open>y\<close> of the RAM window, \<^verbatim>\<open>translate_address\<close> gives
  \<^verbatim>\<open>RAM_START + y\<close> and \<^verbatim>\<open>0xC0000000 + y\<close> the same physical offset, and a word written through
  either address is read back through the other; in general, any two addresses with the same
  physical offset, in bounds, observe each other's writes.\<close>

theorem C5_aliased_windows:
  "(x < MEM1_SIZE \<longrightarrow>
      in_mem1_window (0x80000000 + x) \<and> in_mem1_window (0xC0000000 + x)
    \<and> mem1_offset (0x80000000 + x) = mem1_offset (0xC0000000 + x)
    \<and> (unat x + 3 < unat MEM1_SIZE \<or> unat x mod 4 = 0 \<longrightarrow>
          read32 buttons (write32 m (0x80000000 + x) v) (0xC0000000 + x) = v
        \<and> read32 buttons (write32 m (0xC0000000 + x) v) (0x80000000 + x) = v))
   \<and> (y \<le> RAM_END - RAM_START \<longrightarrow>
      translate_address (RAM_START + y) = translate_address (0xC0000000 + y)
    \<and> read_word (write_word (RAM_START + y) v g) (0xC0000000 + y) = v
    \<and> read_word (write_word (0xC0000000 + y) v g) (RAM_START + y) = v)
   \<and> (translate_address a = translate_address b \<and> word_in_bounds a \<longrightarrow>
      read_word (write_word a v g) b = v)"
proof -
  have same: "read_word (write_word a v g) b = v"
    if "translate_address a = translate_address b" "word_in_bounds a"
  proof -
    have "word_in_bounds b"
      using that by (simp add: word_in_bounds_def)
    with that show ?thesis
      by (simp add: read_word_be memory_write_word be_word_store)
  qed
  have fits: "unat x + 3 < unat MEM1_SIZE" if "x < MEM1_SIZE" "unat x mod 4 = 0"
  proof -
    have "unat x < 0x1800000"
      using that(1) by (simp add: word_less_nat_alt MEM1_SIZE_def)
    with that(2) have "unat x + 3 < 0x1800000"
      by presburger
    then show ?thesis by (simp add: MEM1_SIZE_def)
  qed
  show ?thesis
    using fits same
    by (auto simp add: in_window1 in_window2 mem1_offset_window1 mem1_offset_window2
        Memory_alias_readback translate_ram translate_second_window emu_alias_readback)
qed

theorem C5_aliased_windows_witness:
  "(0x100 :: u32) < MEM1_SIZE \<and> unat (0x100 :: u32) + 3 < unat MEM1_SIZE
   \<and> unat (0x100 :: u32) mod 4 = 0
   \<and> mem1_offset 0x80000100 = mem1_offset 0xC0000100
   \<and> read32 0 (write32 Memory_init 0x80000100 0xDEADBEEF) 0xC0000100 = 0xDEADBEEF
   \<and> read32 0 (write32 Memory_init 0xC0000100 0xDEADBEEF) 0x80000100 = 0xDEADBEEF
   \<and> (0x100 :: u32) \<le> RAM_END - RAM_START
   \<and> translate_address 0x80000100 = translate_address 0xC0000100
   \<and> read_word (write_word 0x80000100 0xDEADBEEF emulator_init) 0xC0000100 = 0xDEADBEEF
   \<and> read_word (write_word 0xC0000100 0xDEADBEEF emulator_init) 0x80000100 = 0xDEADBEEF
   \<and> translate_address 0x00000100 = translate_address 0x80000100
   \<and> word_in_bounds 0x00000100
   \<and> read_word (write_word 0x00000100 0xDEADBEEF emulator_init) 0x80000100 = 0xDEADBEEF"
proof -
  have t: "translate_address 0x00000100 = 0x100" "translate_address 0x80000100 = 0x100"
    by (simp_all add: translate_address_def RAM_START_def RAM_END_def HARDWARE_REGS_START_def
        HARDWARE_REGS_END_def STARLET_MEM_START_def STARLET_MEM_END_def MEM_MASK_value)
  have b: "word_in_bounds 0x00000100"
    by (simp add: word_in_bounds_def t MEMORY_SIZE_value)
  show ?thesis
    using C5_aliased_windows [where x = "0x100" and y = "0x100" and buttons = 0
        and m = Memory_init and v = "0xDEADBEEF" and g = emulator_init
        and a = "0x00000100" and b = "0x80000100"] b
    by (simp add: MEM1_SIZE_def RAM_END_def RAM_START_def t)
qed

text \<open>The claim as it stands fails at the last three offsets of the MEM1 window: at
  \<open>x = 0x17FFFFD\<close> both addresses are in their windows and get the offset \<open>x\<close>, the write through
  the first window is dropped by the bounds check and the read through the second returns 0.\<close>

theorem C5_window_end_counterexample:
  "(0x17FFFFD :: u32) < MEM1_SIZE
   \<and> in_mem1_window (0x80000000 + 0x17FFFFD) \<and> in_mem1_window (0xC0000000 + 0x17FFFFD)
   \<and> mem1_offset (0x80000000 + 0x17FFFFD) = 0x17FFFFD
   \<and> mem1_offset (0xC0000000 + 0x17FFFFD) = 0x17FFFFD
   \<and> write32 Memory_init (0x80000000 + 0x17FFFFD) 0xDEADBEEF = Memory_init
   \<and> read32 0 (write32 Memory_init (0x80000000 + 0x17FFFFD) 0xDEADBEEF) (0xC0000000 + 0x17FFFFD) = 0"
  by (simp add: MEM1_SIZE_def in_mem1_window_def mem1_offset_def read32_def write32_def)

text \<open>Claim C6.  For every address whose physical offset plus 3 reaches the end of the memory
  buffer, \<^verbatim>\<open>read_word\<close> returns 0 and \<^verbatim>\<open>write_word\<close> returns with every global (memory,
  framebuffer, mailbox, audio, vectors) as it was.  Neither accessor can reach the CPU state; a load
  or store instruction whose effective address is such an address leaves the globals and \<open>running\<close>
  unchanged (the load puts 0 into its target register).\<close>

theorem C6_out_of_range_access:
  assumes fault: "unat MEMORY_SIZE \<le> unat (translate_address a) + 3"
  shows "read_word g a = 0 \<and> write_word a v g = g
    \<and> (drop_bit 26 instruction AND 0x3F = 0x20
         \<and> (if field5 16 instruction = 0 then simm16 instruction
              else gpr s (field5 16 instruction) + simm16 instruction) = a
        \<longrightarrow> fst (execute_instruction fp instruction g s) = g
          \<and> running (snd (execute_instruction fp instruction g s)) = running s
          \<and> gpr (snd (execute_instruction fp instruction g s)) (field5 21 instruction) = 0)
    \<and> (drop_bit 26 instruction AND 0x3F = 0x24
         \<and> (if field5 16 instruction = 0 then simm16 instruction
              else gpr s (field5 16 instruction) + simm16 instruction) = a
        \<longrightarrow> fst (execute_instruction fp instruction g s) = g
          \<and> running (snd (execute_instruction fp instruction g s)) = running s)"
proof -
  have r: "read_word g a = 0"
    using fault by (simp add: read_word_def bounds_check_nat)
  have w: "write_word a v g = g" for v
    using fault by (simp add: write_word_def bounds_check_nat)
  show ?thesis
    by (auto simp add: r w execute_instruction_def Let_def)
qed

theorem C6_out_of_range_access_witness:
  "unat MEMORY_SIZE \<le> unat (translate_address 0x057FFFFD) + 3
   \<and> memory filled_scene 0x57FFFFD = 0xAB
   \<and> read_word filled_scene 0x057FFFFD = 0
   \<and> write_word 0x057FFFFD 0xDEADBEEF filled_scene = filled_scene
   \<and> gpr fault_cpu (field5 16 0x80A10008) + simm16 0x80A10008 = 0x057FFFFD
   \<and> fst (execute_instruction sample_float_ops 0x80A10008 filled_scene fault_cpu) = filled_scene
   \<and> running (snd (execute_instruction sample_float_ops 0x80A10008 filled_scene fault_cpu)) = True
   \<and> gpr (snd (execute_instruction sample_float_ops 0x80A10008 filled_scene fault_cpu)) 5 = 0
   \<and> fst (execute_instruction sample_float_ops 0x90A10008 filled_scene fault_cpu) = filled_scene
   \<and> running (snd (execute_instruction sample_float_ops 0x90A10008 filled_scene fault_cpu)) = True"
proof -
  have f: "unat MEMORY_SIZE \<le> unat (translate_address 0x057FFFFD) + 3"
    by (simp add: fault_address MEMORY_SIZE_value)
  have m: "memory filled_scene 0x57FFFFD = 0xAB"
    by (simp add: filled_scene_def)
  show ?thesis
    using C6_out_of_range_access [OF f, where g = filled_scene and v = "0xDEADBEEF"
        and instruction = "0x80A10008" and s = fault_cpu and fp = sample_float_ops]
      C6_out_of_range_access [OF f, where g = filled_scene and v = "0xDEADBEEF"
        and instruction = "0x90A10008" and s = fault_cpu and fp = sample_float_ops]
      f m fault_cpu_regs
    by (simp add: decode_samples)
qed

text \<open>Claim C7.  For every interrupt type and every state with \<open>interrupts_enabled\<close> set,
  \<^verbatim>\<open>trigger_interrupt\<close> stores the old \<open>pc\<close> in \<open>spr[8]\<close> (the link-register slot), sets \<open>pc\<close> to the
  vector the table maps the type to, or to \<^verbatim>\<open>INTERRUPT_TABLE_BASE\<close> when the type is unmapped,
  clears \<open>interrupts_enabled\<close> and sets \<open>kernel_mode\<close>.\<close>

theorem C7_trigger_armed:
  assumes "interrupts_enabled s"
  shows "spr (trigger_interrupt g t s) 8 = pc s
       \<and> pc (trigger_interrupt g t s)
           = (case interrupt_vectors g t of Some v \<Rightarrow> v | None \<Rightarrow> INTERRUPT_TABLE_BASE)
       \<and> interrupts_enabled (trigger_interrupt g t s) = False
       \<and> kernel_mode (trigger_interrupt g t s) = True"
  using assms by (simp add: trigger_interrupt_def get_interrupt_vector_def)

theorem C7_trigger_armed_witness:
  "interrupts_enabled armed_cpu
   \<and> spr (trigger_interrupt vector_scene 9 armed_cpu) 8 = 0x80000010
   \<and> pc (trigger_interrupt vector_scene 9 armed_cpu) = 0x80003090
   \<and> pc (trigger_interrupt vector_scene 5 armed_cpu) = 0x80003000
   \<and> interrupts_enabled (trigger_interrupt vector_scene 9 armed_cpu) = False
   \<and> kernel_mode (trigger_interrupt vector_scene 9 armed_cpu) = True"
  using C7_trigger_armed [of armed_cpu vector_scene 9] C7_trigger_armed [of armed_cpu vector_scene 5]
  by (simp add: armed_cpu_def vector_scene_def CPUState_init_def emulator_init_def INTERRUPT_TABLE_BASE_def)

text \<open>Claim C8.  For every address whose physical offset plus 3 lies inside the memory buffer and
  every 32-bit value, \<^verbatim>\<open>write_word\<close> followed by \<^verbatim>\<open>read_word\<close> at the same address returns the
  value.\<close>

theorem C8_round_trip:
  assumes "unat (translate_address a) + 3 < unat MEMORY_SIZE"
  shows "read_word (write_word a v g) a = v"
proof -
  have "word_in_bounds a"
    using assms by (simp add: word_in_bounds_nat)
  then show ?thesis by (rule read_write_same)
qed

theorem C8_round_trip_witness:
  "unat (translate_address 0x80000000) + 3 < unat MEMORY_SIZE
   \<and> read_word (write_word 0x80000000 0xDEADBEEF emulator_init) 0x80000000 = 0xDEADBEEF"
  using C8_round_trip [of "0x80000000" "0xDEADBEEF" emulator_init]
  by (simp add: translate_entry MEMORY_SIZE_value)

text \<open>Claim C9.  For every state with \<open>interrupts_enabled\<close> clear, executing a fetched word
  whose opcode is \<^verbatim>\<open>0x13\<close> (system call) changes nothing but \<open>cycle_count\<close>, which grows by 1:
  \<open>pc\<close>, the registers, the flags and the globals stay, so the next fetch returns the same
  word; with an idle mailbox the coprocessor poll that follows changes nothing either.\<close>

theorem C9_syscall_disarmed:
  assumes "\<not> interrupts_enabled s"
      and "drop_bit 26 (fetch_instruction g s) AND 0x3F = 0x13"
  shows "execute_instruction fp (fetch_instruction g s) g s
           = (g, s\<lparr>cycle_count := cycle_count s + 1\<rparr>)
       \<and> fetch_instruction g (s\<lparr>cycle_count := cycle_count s + 1\<rparr>) = fetch_instruction g s
       \<and> (command (starlet_memory g) = 0 \<longrightarrow>
            handle_starlet_command g (s\<lparr>cycle_count := cycle_count s + 1\<rparr>)
              = Some (False, g, s\<lparr>cycle_count := cycle_count s + 1\<rparr>))"
  using assms
  by (simp add: execute_instruction_def trigger_interrupt_def fetch_instruction_def
      handle_starlet_command_def Let_def)

theorem C9_syscall_disarmed_witness:
  "interrupts_enabled boot_cpu = False
   \<and> fetch_instruction sc_scene boot_cpu = 0x4C000000
   \<and> drop_bit 26 (0x4C000000 :: u32) AND 0x3F = 0x13
   \<and> command (starlet_memory sc_scene) = 0
   \<and> execute_instruction sample_float_ops (fetch_instruction sc_scene boot_cpu) sc_scene boot_cpu
       = (sc_scene, boot_cpu\<lparr>cycle_count := 1\<rparr>)
   \<and> fetch_instruction sc_scene (boot_cpu\<lparr>cycle_count := 1\<rparr>) = 0x4C000000
   \<and> handle_starlet_command sc_scene (boot_cpu\<lparr>cycle_count := 1\<rparr>)
       = Some (False, sc_scene, boot_cpu\<lparr>cycle_count := 1\<rparr>)"
proof -
  have a: "\<not> interrupts_enabled boot_cpu" "cycle_count boot_cpu = 0"
    by (simp_all add: boot_cpu_def CPUState_init_def)
  have b: "drop_bit 26 (fetch_instruction sc_scene boot_cpu) AND 0x3F = 0x13"
    by (simp add: fetch_sc_scene)
  have c: "command (starlet_memory sc_scene) = 0"
    by (simp add: sc_scene_def emulator_init_def)
  show ?thesis
    using C9_syscall_disarmed [OF a(1) b, of sample_float_ops] a c
    by (simp add: fetch_sc_scene)
qed

text \<open>Claim C10.  For every load-word (\<^verbatim>\<open>0x20\<close>) and store-word (\<^verbatim>\<open>0x24\<close>) instruction whose
  base-register field (bits 16 to 20) is 0, the effective address is the sign-extended 16-bit
  offset alone, whatever \<open>gpr[0]\<close> holds; for every other base-register field it is that register
  plus the sign-extended offset.  The offset is written out: the low 16 bits of the word, read as
  a signed 16-bit value and extended to 32 bits (bit 15 copied into bits 16 to 31).  The integer
  instructions (\<^verbatim>\<open>0x18\<close>, \<^verbatim>\<open>0x19\<close>, \<^verbatim>\<open>0x1C\<close>) read and write \<open>gpr[0]\<close> as they do any other
  register: the equations hold for every value of the register fields, 0 included.\<close>

theorem C10_effective_address:
  "(drop_bit 26 instruction AND 0x3F = 0x20 \<longrightarrow>
      (field5 16 instruction = 0 \<longrightarrow>
         execute_instruction fp instruction g s =
           (g, s\<lparr>cycle_count := cycle_count s + 1,
                 gpr := (gpr s)(field5 21 instruction :=
                           read_word g (scast (ucast instruction :: u16))),
                 pc := pc s + 4\<rparr>))
    \<and> (field5 16 instruction \<noteq> 0 \<longrightarrow>
         execute_instruction fp instruction g s =
           (g, s\<lparr>cycle_count := cycle_count s + 1,
                 gpr := (gpr s)(field5 21 instruction :=
                           read_word g (gpr s (field5 16 instruction)
                                        + scast (ucast instruction :: u16))),
                 pc := pc s + 4\<rparr>)))
   \<and> (drop_bit 26 instruction AND 0x3F = 0x24 \<longrightarrow>
      (field5 16 instruction = 0 \<longrightarrow>
         execute_instruction fp instruction g s =
           (write_word (scast (ucast instruction :: u16)) (gpr s (field5 21 instruction)) g,
            s\<lparr>cycle_count := cycle_count s + 1, pc := pc s + 4\<rparr>))
    \<and> (field5 16 instruction \<noteq> 0 \<longrightarrow>
         execute_instruction fp instruction g s =
           (write_word (gpr s (field5 16 instruction) + scast (ucast instruction :: u16))
              (gpr s (field5 21 instruction)) g,
            s\<lparr>cycle_count := cycle_count s + 1, pc := pc s + 4\<rparr>)))
   \<and> (drop_bit 26 instruction AND 0x3F = 0x18 \<longrightarrow>
         execute_instruction fp instruction g s =
           (g, s\<lparr>cycle_count := cycle_count s + 1,
                 gpr := (gpr s)(field5 11 instruction :=
                           gpr s (field5 21 instruction) + gpr s (field5 16 instruction)),
                 pc := pc s + 4\<rparr>))
   \<and> (drop_bit 26 instruction AND 0x3F = 0x19 \<longrightarrow>
         execute_instruction fp instruction g s =
           (g, s\<lparr>cycle_count := cycle_count s + 1,
                 gpr := (gpr s)(field5 16 instruction :=
                           gpr s (field5 21 instruction) + scast (ucast instruction :: u16)),
                 pc := pc s + 4\<rparr>))
   \<and> (drop_bit 26 instruction AND 0x3F = 0x1C \<longrightarrow>
         execute_instruction fp instruction g s =
           (g, s\<lparr>cycle_count := cycle_count s + 1,
                 gpr := (gpr s)(field5 16 instruction :=
                           gpr s (field5 21 instruction)
                           + push_bit 16 (scast (ucast instruction :: u16))),
                 pc := pc s + 4\<rparr>))
   \<and> simm16 instruction = scast (ucast instruction :: u16)
   \<and> sint (simm16 instruction) = sint (ucast instruction :: u16)
   \<and> simm16 instruction =
        (if bit instruction 15 then (instruction AND 0xFFFF) OR 0xFFFF0000
         else instruction AND 0xFFFF)"
proof -
  have a: "simm16 instruction = scast (ucast instruction :: u16)"
    by (rule simm16_scast)
  have b: "sint (simm16 instruction) = sint (ucast instruction :: u16)"
    by (rule simm16_sint)
  have c: "simm16 instruction =
        (if bit instruction 15 then (instruction AND 0xFFFF) OR 0xFFFF0000
         else instruction AND 0xFFFF)"
    by (rule simm16_bits)
  have e: "execute_instruction fp instruction g s =
     (let opcode = drop_bit 26 instruction AND 0x3F;
          offset = (scast (ucast instruction :: u16) :: u32);
          st = s\<lparr>cycle_count := cycle_count s + 1\<rparr>
      in if opcode = 0x18 then
           (g, st\<lparr>gpr := (gpr s)(field5 11 instruction :=
                              gpr s (field5 21 instruction) + gpr s (field5 16 instruction)),
                   pc := pc s + 4\<rparr>)
         else if opcode = 0x19 then
           (g, st\<lparr>gpr := (gpr s)(field5 16 instruction := gpr s (field5 21 instruction) + offset),
                   pc := pc s + 4\<rparr>)
         else if opcode = 0x1C then
           (g, st\<lparr>gpr := (gpr s)(field5 16 instruction :=
                              gpr s (field5 21 instruction) + push_bit 16 offset),
                   pc := pc s + 4\<rparr>)
         else if opcode = 0x20 then
           (g, st\<lparr>gpr := (gpr s)(field5 21 instruction :=
                              read_word g (if field5 16 instruction = 0 then offset
                                           else gpr s (field5 16 instruction) + offset)),
                   pc := pc s + 4\<rparr>)
         else if opcode = 0x24 then
           (write_word (if field5 16 instruction = 0 then offset
                        else gpr s (field5 16 instruction) + offset)
              (gpr s (field5 21 instruction)) g,
            st\<lparr>pc := pc s + 4\<rparr>)
         else execute_instruction fp instruction g s)"
    unfolding execute_instruction_def a Let_def by simp
  have eq: "(drop_bit 26 instruction AND 0x3F = 0x20 \<longrightarrow>
      (field5 16 instruction = 0 \<longrightarrow>
         execute_instruction fp instruction g s =
           (g, s\<lparr>cycle_count := cycle_count s + 1,
                 gpr := (gpr s)(field5 21 instruction :=
                           read_word g (scast (ucast instruction :: u16))),
                 pc := pc s + 4\<rparr>))
    \<and> (field5 16 instruction \<noteq> 0 \<longrightarrow>
         execute_instruction fp instruction g s =
           (g, s\<lparr>cycle_count := cycle_count s + 1,
                 gpr := (gpr s)(field5 21 instruction :=
                           read_word g (gpr s (field5 16 instruction)
                                        + scast (ucast instruction :: u16))),
                 pc := pc s + 4\<rparr>)))
   \<and> (drop_bit 26 instruction AND 0x3F = 0x24 \<longrightarrow>
      (field5 16 instruction = 0 \<longrightarrow>
         execute_instruction fp instruction g s =
           (write_word (scast (ucast instruction :: u16)) (gpr s (field5 21 instruction)) g,
            s\<lparr>cycle_count := cycle_count s + 1, pc := pc s + 4\<rparr>))
    \<and> (field5 16 instruction \<noteq> 0 \<longrightarrow>
         execute_instruction fp instruction g s =
           (write_word (gpr s (field5 16 instruction) + scast (ucast instruction :: u16))
              (gpr s (field5 21 instruction)) g,
            s\<lparr>cycle_count := cycle_count s + 1, pc := pc s + 4\<rparr>)))
   \<and> (drop_bit 26 instruction AND 0x3F = 0x18 \<longrightarrow>
         execute_instruction fp instruction g s =
           (g, s\<lparr>cycle_count := cycle_count s + 1,
                 gpr := (gpr s)(field5 11 instruction :=
                           gpr s (field5 21 instruction) + gpr s (field5 16 instruction)),
                 pc := pc s + 4\<rparr>))
   \<and> (drop_bit 26 instruction AND 0x3F = 0x19 \<longrightarrow>
         execute_instruction fp instruction g s =
           (g, s\<lparr>cycle_count := cycle_count s + 1,
                 gpr := (gpr s)(field5 16 instruction :=
                           gpr s (field5 21 instruction) + scast (ucast instruction :: u16)),
                 pc := pc s + 4\<rparr>))
   \<and> (drop_bit 26 instruction AND 0x3F = 0x1C \<longrightarrow>
         execute_instruction fp instruction g s =
           (g, s\<lparr>cycle_count := cycle_count s + 1,
                 gpr := (gpr s)(field5 16 instruction :=
                           gpr s (field5 21 instruction)
                           + push_bit 16 (scast (ucast instruction :: u16))),
                 pc := pc s + 4\<rparr>))"
    by (subst e, simp add: Let_def)+
  from eq a b c show ?thesis
    by (intro conjI) (elim conjE, assumption)+
qed

theorem C10_effective_address_witness:
  "gpr ea_cpu 0 = 0x80000100 \<and> gpr ea_cpu 1 = 0x80000100
   \<and> gpr (snd (execute_instruction sample_float_ops 0x80A00008 ea_scene ea_cpu)) 5 = 0x11223344
   \<and> gpr (snd (execute_instruction sample_float_ops 0x80A10008 ea_scene ea_cpu)) 5 = 0x55667788
   \<and> fst (execute_instruction sample_float_ops 0x90A00008 ea_scene ea_cpu)
        = write_word 0x8 0xCAFEBABE ea_scene
   \<and> fst (execute_instruction sample_float_ops 0x90A10008 ea_scene ea_cpu)
        = write_word 0x80000108 0xCAFEBABE ea_scene
   \<and> gpr (snd (execute_instruction sample_float_ops 0x60220000 ea_scene ea_cpu)) 0 = 0x80000110
   \<and> gpr (snd (execute_instruction sample_float_ops 0x64030001 ea_scene ea_cpu)) 3 = 0x80000101
   \<and> gpr (snd (execute_instruction sample_float_ops 0x70030001 ea_scene ea_cpu)) 3 = 0x80010100
   \<and> sint (ucast (0x80A0FFFC :: u32) :: u16) = - 4
   \<and> simm16 0x80A0FFFC = 0xFFFFFFFC
   \<and> sint (simm16 0x80A0FFFC) = - 4
   \<and> read_word ea_scene 0xFFFFFFFC = 0x99AABBCC \<and> read_word ea_scene 0xFFFC = 0
   \<and> gpr (snd (execute_instruction sample_float_ops 0x80A0FFFC ea_scene ea_cpu)) 5 = 0x99AABBCC
   \<and> sint (ucast (0x80A1FF08 :: u32) :: u16) = - 248
   \<and> read_word ea_scene 0x80000008 = 0x11223344 \<and> read_word ea_scene 0x80010008 = 0
   \<and> gpr (snd (execute_instruction sample_float_ops 0x80A1FF08 ea_scene ea_cpu)) 5 = 0x11223344
   \<and> fst (execute_instruction sample_float_ops 0x90A0FFFC ea_scene ea_cpu)
        = write_word 0xFFFFFFFC 0xCAFEBABE ea_scene
   \<and> fst (execute_instruction sample_float_ops 0x90A1FF08 ea_scene ea_cpu)
        = write_word 0x80000008 0xCAFEBABE ea_scene
   \<and> gpr (snd (execute_instruction sample_float_ops 0x6403FFFF ea_scene ea_cpu)) 3 = 0x800000FF"
  using C10_effective_address [where instruction = "0x80A00008" and fp = sample_float_ops
      and g = ea_scene and s = ea_cpu]
    C10_effective_address [where instruction = "0x80A10008" and fp = sample_float_ops
      and g = ea_scene and s = ea_cpu]
    C10_effective_address [where instruction = "0x90A00008" and fp = sample_float_ops
      and g = ea_scene and s = ea_cpu]
    C10_effective_address [where instruction = "0x90A10008" and fp = sample_float_ops
      and g = ea_scene and s = ea_cpu]
    C10_effective_address [where instruction = "0x60220000" and fp = sample_float_ops
      and g = ea_scene and s = ea_cpu]
    C10_effective_address [where instruction = "0x64030001" and fp = sample_float_ops
      and g = ea_scene and s = ea_cpu]
    C10_effective_address [where instruction = "0x70030001" and fp = sample_float_ops
      and g = ea_scene and s = ea_cpu]
    C10_effective_address [where instruction = "0x80A0FFFC" and fp = sample_float_ops
      and g = ea_scene and s = ea_cpu]
    C10_effective_address [where instruction = "0x80A1FF08" and fp = sample_float_ops
      and g = ea_scene and s = ea_cpu]
    C10_effective_address [where instruction = "0x90A0FFFC" and fp = sample_float_ops
      and g = ea_scene and s = ea_cpu]
    C10_effective_address [where instruction = "0x90A1FF08" and fp = sample_float_ops
      and g = ea_scene and s = ea_cpu]
    C10_effective_address [where instruction = "0x6403FFFF" and fp = sample_float_ops
      and g = ea_scene and s = ea_cpu]
    ea_cpu_regs
  by (simp add: decode_samples decode_negative_samples ea_scene_words ea_scene_negative_words
      minus_four_word)

end
